theory Spec2Isabelle
  imports Complex_Main "HOL-Library.Word"
begin

section \<open>Parking lot simulation: the data model of main.cpp\<close>

text \<open>
  The program keeps a vector of heap-allocated \<open>Vehicle\<close> objects of three derived
  classes, a constant capacity and a running revenue. The embedding follows the source:
  \<^item> \<open>time_t\<close> is the 64-bit signed integer of the usual platforms, a \<open>64 word\<close> read
    with \<open>sint\<close>;
  \<^item> the dynamic class of a vehicle is a datatype, the object a record;
  \<^item> \<open>double\<close> values (fees, revenue) are idealised as \<open>real\<close>: rounding of the
    floating-point operations is not modelled;
  \<^item> every call of \<open>time(0)\<close> is a parameter \<open>now\<close> of the operation that makes it;
  \<^item> what is written to \<open>cout\<close> is returned as a list of messages.
\<close>

type_synonym time_t = "64 word"

datatype vclass = Car | Truck | Motorbike

record vehicle =
  licensePlate :: string
  vclass :: vclass
  entryTime :: time_t

text \<open>The \<open>type\<close> field is fixed by the constructor of each derived class.\<close>

fun type_name :: "vclass \<Rightarrow> string" where
  "type_name Car = ''Car''"
| "type_name Truck = ''Truck''"
| "type_name Motorbike = ''Motorbike''"

definition getType :: "vehicle \<Rightarrow> string" where
  "getType v = type_name (vclass v)"

text \<open>
  The constructor \<open>Vehicle(plate, type, entry = 0)\<close>: an \<open>entry\<close> of 0 stands for
  "no time given" and is replaced by the clock reading \<open>now\<close>.
\<close>

definition Vehicle :: "vclass \<Rightarrow> string \<Rightarrow> time_t \<Rightarrow> time_t \<Rightarrow> vehicle" where
  "Vehicle k plate entry now =
     \<lparr> licensePlate = plate, vclass = k,
       entryTime = (if entry = 0 then now else entry) \<rparr>"

subsection \<open>Fees\<close>

text \<open>
  \<open>difftime(t1, t0)\<close> is the difference of the two instants in seconds as a double; it
  does not wrap around.
\<close>

definition difftime :: "time_t \<Rightarrow> time_t \<Rightarrow> real" where
  "difftime t1 t0 = real_of_int (sint t1 - sint t0)"

definition Car_calculateFee :: "time_t \<Rightarrow> time_t \<Rightarrow> real" where
  "Car_calculateFee entry now =
     (let hourlyRate = 20;
          hours = difftime now entry / 3600;
          hours = (if hours < 1 then 1 else hours)
      in hours * hourlyRate)"

definition Truck_calculateFee :: "time_t \<Rightarrow> time_t \<Rightarrow> real" where
  "Truck_calculateFee entry now =
     (let hourlyRate = 50;
          hours = difftime now entry / 3600;
          hours = (if hours < 1 then 1 else hours)
      in hours * hourlyRate)"

definition Motorbike_calculateFee :: "time_t \<Rightarrow> time_t \<Rightarrow> real" where
  "Motorbike_calculateFee entry now =
     (let hourlyRate = 10;
          hours = difftime now entry / 3600;
          hours = (if hours < 1 then 1 else hours)
      in hours * hourlyRate)"

text \<open>The virtual call \<open>v->calculateFee()\<close> dispatches on the dynamic class.\<close>

definition calculateFee :: "vehicle \<Rightarrow> time_t \<Rightarrow> real" where
  "calculateFee v now =
     (case vclass v of
        Car \<Rightarrow> Car_calculateFee (entryTime v) now
      | Truck \<Rightarrow> Truck_calculateFee (entryTime v) now
      | Motorbike \<Rightarrow> Motorbike_calculateFee (entryTime v) now)"

text \<open>
  The specification's side of the fee contract: a rate table and the number of hours
  between two instants.
\<close>

fun rate :: "vclass \<Rightarrow> real" where
  "rate Car = 20"
| "rate Truck = 50"
| "rate Motorbike = 10"

definition hoursBetween :: "time_t \<Rightarrow> time_t \<Rightarrow> real" where
  "hoursBetween entry now = real_of_int (sint now - sint entry) / 3600"

definition spec_fee :: "vclass \<Rightarrow> time_t \<Rightarrow> time_t \<Rightarrow> real" where
  "spec_fee c entry now = rate c * max 1 (hoursBetween entry now)"

section \<open>The registry: class ParkingLot\<close>

text \<open>
  The lines written to \<open>cout\<close>, one constructor per message of the source:
  \<^item> \<open>LotFull plate\<close>: "Parking Lot is Full! plate cannot enter."
  \<^item> \<open>ParkedOk type plate\<close>: "type (plate) parked successfully."
  \<^item> \<open>Receipt plate type fee\<close>: the receipt block of \<open>unparkVehicle\<close>
  \<^item> \<open>NotFound plate\<close>: ">> ERROR: Vehicle with plate plate not found!"
  \<^item> \<open>SaveFailed\<close>: "Error: Could not open file for saving."
  \<^item> \<open>Saved\<close>: "Data saved successfully."
  \<^item> \<open>Loaded\<close>: "Previous data loaded."
\<close>

datatype message =
    LotFull string
  | ParkedOk string string
  | Receipt string string real
  | NotFound string
  | SaveFailed
  | Saved
  | Loaded

record ParkingLot =
  parkedVehicles :: "vehicle list"
  totalRevenue :: real

definition capacity :: nat where
  "capacity = 7"

definition parkVehicle :: "vehicle \<Rightarrow> ParkingLot \<Rightarrow> ParkingLot \<times> message list" where
  "parkVehicle newVehicle lot =
     (if length (parkedVehicles lot) \<ge> capacity
      then (lot, [LotFull (licensePlate newVehicle)])
      else (lot\<lparr>parkedVehicles := parkedVehicles lot @ [newVehicle]\<rparr>,
            [ParkedOk (getType newVehicle) (licensePlate newVehicle)]))"

text \<open>
  The loop of \<open>unparkVehicle\<close>: the iterator has passed \<open>before\<close> and still has
  \<open>rest\<close> to visit. At the first vehicle with the plate the fee is added to the revenue,
  the receipt is printed, the element is erased and the loop is left with
  \<open>found = true\<close>. The result is the vector, the revenue, the output and \<open>found\<close>.
\<close>

fun unpark_loop ::
  "string \<Rightarrow> time_t \<Rightarrow> vehicle list \<Rightarrow> vehicle list \<Rightarrow> real
     \<Rightarrow> vehicle list \<times> real \<times> message list \<times> bool" where
  "unpark_loop plate now before [] revenue = (before, revenue, [], False)"
| "unpark_loop plate now before (v # rest) revenue =
     (if licensePlate v = plate
      then (let fee = calculateFee v now
            in (before @ rest, revenue + fee, [Receipt (licensePlate v) (getType v) fee], True))
      else unpark_loop plate now (before @ [v]) rest revenue)"

definition unparkVehicle :: "string \<Rightarrow> time_t \<Rightarrow> ParkingLot \<Rightarrow> ParkingLot \<times> message list" where
  "unparkVehicle plate now lot =
     (case unpark_loop plate now [] (parkedVehicles lot) (totalRevenue lot) of
        (vs, revenue, out, found) \<Rightarrow>
          (lot\<lparr>parkedVehicles := vs, totalRevenue := revenue\<rparr>,
           out @ (if \<not> found then [NotFound plate] else [])))"

section \<open>Persistence: parking_data.txt\<close>

text \<open>
  The file is a string; a file that cannot be opened is \<open>None\<close>. The stream operators
  are those of the C++ standard library in the default ("C") locale: \<open>operator>>\<close>
  skips leading white space, then reads a word up to the next white space, or an optional
  sign and decimal digits for a \<open>time_t\<close>; it fails at the end of the input, on a number
  without digits and on a number outside the range of the type, from \<open>-2^63\<close>
  (-9223372036854775808) to \<open>2^63 - 1\<close>. \<open>operator<<\<close> prints a
  \<open>time_t\<close> in decimal, with a minus sign when negative.
\<close>

definition isspace :: "char \<Rightarrow> bool" where
  "isspace c \<longleftrightarrow> c \<in> set [CHR '' '', CHR 0x09, CHR 0x0A, CHR 0x0B, CHR 0x0C, CHR 0x0D]"

definition isdigit :: "char \<Rightarrow> bool" where
  "isdigit c \<longleftrightarrow> c \<in> set ''0123456789''"

definition digit_value :: "char \<Rightarrow> int" where
  "digit_value c = of_char c - 48"

definition digit_char :: "int \<Rightarrow> char" where
  "digit_char d = char_of (48 + d)"

definition read_word :: "string \<Rightarrow> (string \<times> string) option" where
  "read_word s =
     (let s1 = dropWhile isspace s
      in if s1 = [] then None
         else Some (takeWhile (\<lambda>c. \<not> isspace c) s1, dropWhile (\<lambda>c. \<not> isspace c) s1))"

definition read_sign :: "string \<Rightarrow> bool \<times> string" where
  "read_sign s =
     (case s of
        [] \<Rightarrow> (False, [])
      | c # r \<Rightarrow> if c = CHR ''-'' then (True, r)
                 else if c = CHR ''+'' then (False, r)
                 else (False, s))"

definition read_time_t :: "string \<Rightarrow> (time_t \<times> string) option" where
  "read_time_t s =
     (case read_sign (dropWhile isspace s) of
        (negative, s2) \<Rightarrow>
          (let ds = takeWhile isdigit s2;
               n = foldl (\<lambda>a c. 10 * a + digit_value c) (0::int) ds
           in if ds = [] then None
              else if negative
              then (if 9223372036854775808 < n then None
                    else Some (word_of_int (- n), dropWhile isdigit s2))
              else (if 9223372036854775807 < n then None
                    else Some (word_of_int n, dropWhile isdigit s2))))"

text \<open>The chained extraction \<open>inFile >> type >> plate >> timeEntry\<close>.\<close>

definition read_record :: "string \<Rightarrow> ((string \<times> string \<times> time_t) \<times> string) option" where
  "read_record s =
     (case read_word s of
        None \<Rightarrow> None
      | Some (ty, s1) \<Rightarrow>
          (case read_word s1 of
             None \<Rightarrow> None
           | Some (plate, s2) \<Rightarrow>
               (case read_time_t s2 of
                  None \<Rightarrow> None
                | Some (timeEntry, s3) \<Rightarrow> Some ((ty, plate, timeEntry), s3))))"

lemma read_word_shorter: "read_word s = Some (w, r) \<Longrightarrow> length r < length s"
proof -
  assume a: "read_word s = Some (w, r)"
  let ?s1 = "dropWhile isspace s"
  from a have ne: "?s1 \<noteq> []" and r: "r = dropWhile (\<lambda>c. \<not> isspace c) ?s1"
    by (auto simp: read_word_def Let_def split: if_splits)
  from ne have "\<not> isspace (hd ?s1)"
    by (rule hd_dropWhile)
  with ne have "r = dropWhile (\<lambda>c. \<not> isspace c) (tl ?s1)"
    unfolding r by (cases ?s1) simp_all
  then have "length r \<le> length (tl ?s1)"
    by (simp only: length_dropWhile_le)
  also have "\<dots> < length ?s1"
    using ne by simp
  also have "\<dots> \<le> length s"
    by (rule length_dropWhile_le)
  finally show ?thesis .
qed

lemma read_sign_shorter: "read_sign s = (b, r) \<Longrightarrow> length r \<le> length s"
  by (auto simp: read_sign_def split: list.splits if_splits)

lemma read_time_t_shorter: "read_time_t s = Some (t, r) \<Longrightarrow> length r \<le> length s"
proof -
  assume a: "read_time_t s = Some (t, r)"
  obtain b s2 where rs: "read_sign (dropWhile isspace s) = (b, s2)"
    by (cases "read_sign (dropWhile isspace s)")
  with a have "r = dropWhile isdigit s2"
    by (auto simp: read_time_t_def Let_def split: if_splits)
  then have "length r \<le> length s2"
    by (simp add: length_dropWhile_le)
  also have "\<dots> \<le> length (dropWhile isspace s)"
    using rs by (rule read_sign_shorter)
  also have "\<dots> \<le> length s"
    by (rule length_dropWhile_le)
  finally show ?thesis .
qed

lemma read_record_shorter: "read_record s = Some (x, r) \<Longrightarrow> length r < length s"
  unfolding read_record_def
  by (auto split: option.splits prod.splits
        dest!: read_word_shorter read_time_t_shorter)

text \<open>
  The loop of \<open>loadData\<close>: it runs while the extraction of a record succeeds, and a
  record whose type is none of the three names adds nothing.
\<close>

function load_loop :: "time_t \<Rightarrow> string \<Rightarrow> vehicle list \<Rightarrow> vehicle list" where
  "load_loop now s vs =
     (case read_record s of
        None \<Rightarrow> vs
      | Some ((ty, plate, timeEntry), r) \<Rightarrow>
          load_loop now r
            (if ty = ''Car'' then vs @ [Vehicle Car plate timeEntry now]
             else if ty = ''Truck'' then vs @ [Vehicle Truck plate timeEntry now]
             else if ty = ''Motorbike'' then vs @ [Vehicle Motorbike plate timeEntry now]
             else vs))"
  by pat_completeness auto
termination
  by (relation "measure (\<lambda>(now, s, vs). length s)") (auto dest: read_record_shorter)

declare load_loop.simps [simp del]

definition loadData :: "string option \<Rightarrow> time_t \<Rightarrow> ParkingLot \<Rightarrow> ParkingLot \<times> message list" where
  "loadData file now lot =
     (case file of
        None \<Rightarrow> (lot, [])
      | Some text \<Rightarrow>
          (lot\<lparr>parkedVehicles := load_loop now text (parkedVehicles lot)\<rparr>, [Loaded]))"

text \<open>The constructor \<open>ParkingLot()\<close>: revenue 0, then \<open>loadData()\<close>.\<close>

definition ParkingLot_init :: "string option \<Rightarrow> time_t \<Rightarrow> ParkingLot \<times> message list" where
  "ParkingLot_init file now = loadData file now \<lparr>parkedVehicles = [], totalRevenue = 0\<rparr>"

text \<open>The decimal digits of a number that is not negative, most significant first.\<close>

function show_digits :: "int \<Rightarrow> string" where
  "show_digits n =
     (if n < 10 then [digit_char n] else show_digits (n div 10) @ [digit_char (n mod 10)])"
  by pat_completeness auto
termination
  by (relation "measure nat") auto

declare show_digits.simps [simp del]

definition show_time_t :: "time_t \<Rightarrow> string" where
  "show_time_t t =
     (if sint t < 0 then CHR ''-'' # show_digits (- sint t) else show_digits (sint t))"

text \<open>One line of the file: \<open>type plate entryTime\<close> and \<open>endl\<close>.\<close>

definition record_line :: "vehicle \<Rightarrow> string" where
  "record_line v =
     getType v @ '' '' @ licensePlate v @ '' '' @ show_time_t (entryTime v) @ [CHR 0x0A]"

fun write_records :: "string \<Rightarrow> vehicle list \<Rightarrow> string" where
  "write_records out [] = out"
| "write_records out (v # vs) = write_records (out @ record_line v) vs"

text \<open>
  \<open>saveData\<close>: \<open>can_open\<close> says whether the output file could be opened; the result is
  the file after the call. An opened file is truncated and rewritten.
\<close>

definition saveData :: "bool \<Rightarrow> string option \<Rightarrow> ParkingLot \<Rightarrow> string option \<times> message list" where
  "saveData can_open file lot =
     (if \<not> can_open then (file, [SaveFailed])
      else (Some (write_records [] (parkedVehicles lot)), [Saved]))"

section \<open>Notions used to state the properties\<close>

text \<open>
  A token is what \<open>operator>>\<close> reads into a string: not empty and free of white
  space. Plates typed at the menu or read from the file are tokens.
\<close>

definition is_token :: "string \<Rightarrow> bool" where
  "is_token s \<longleftrightarrow> s \<noteq> [] \<and> list_all (\<lambda>c. \<not> isspace c) s"

text \<open>
  The object that \<open>loadData\<close> constructs from the three fields of a stored vehicle,
  and a line of the file whose first field is any word.
\<close>

definition loaded_vehicle :: "time_t \<Rightarrow> vehicle \<Rightarrow> vehicle" where
  "loaded_vehicle now v = Vehicle (vclass v) (licensePlate v) (entryTime v) now"

definition field_line :: "string \<Rightarrow> string \<Rightarrow> time_t \<Rightarrow> string" where
  "field_line ty plate t = ty @ '' '' @ plate @ '' '' @ show_time_t t @ [CHR 0x0A]"

section \<open>Properties of the fee\<close>

lemma calculateFee_spec_fee:
  "calculateFee v now = spec_fee (vclass v) (entryTime v) now"
  by (cases "vclass v")
     (simp_all add: calculateFee_def spec_fee_def hoursBetween_def difftime_def
        Car_calculateFee_def Truck_calculateFee_def Motorbike_calculateFee_def
        Let_def max_def)

lemma hours_le_one_iff: "real_of_int d / 3600 \<le> 1 \<longleftrightarrow> d \<le> 3600"
  by simp

lemma hours_mono: "d1 \<le> d2 \<Longrightarrow> real_of_int d1 / 3600 \<le> real_of_int d2 / 3600"
  by (simp add: divide_right_mono)

lemma rate_pos: "0 < rate c"
  by (cases c) simp_all

lemma spec_fee_ge_rate: "rate c \<le> spec_fee c entry now"
proof -
  have "rate c * 1 \<le> rate c * max 1 (hoursBetween entry now)"
    by (rule mult_left_mono) (simp_all add: less_imp_le [OF rate_pos])
  then show ?thesis by (simp add: spec_fee_def)
qed

text \<open>
  Claim C1. For each of the three classes and every entry instant not later than the
  current time, the fee computed by the virtual \<open>calculateFee\<close> is
  \<open>rate * max 1 ((now - entry) / 3600)\<close> with the rates 20 (Car), 50 (Truck) and
  10 (Motorbike), and it is not negative.
\<close>

theorem C1_fee_formula:
  assumes "sint (entryTime v) \<le> sint now"
  shows "calculateFee v now
           = rate (vclass v) * max 1 (real_of_int (sint now - sint (entryTime v)) / 3600)
         \<and> rate Car = 20 \<and> rate Truck = 50 \<and> rate Motorbike = 10
         \<and> 0 \<le> calculateFee v now"
proof -
  have eq: "calculateFee v now
              = rate (vclass v) * max 1 (real_of_int (sint now - sint (entryTime v)) / 3600)"
    by (simp add: calculateFee_spec_fee spec_fee_def hoursBetween_def)
  have "0 \<le> rate (vclass v)"
    by (rule less_imp_le [OF rate_pos])
  also have "\<dots> \<le> calculateFee v now"
    by (simp only: calculateFee_spec_fee spec_fee_ge_rate)
  finally show ?thesis using eq by simp
qed

theorem C1_fee_formula_witness:
  "sint (entryTime \<lparr> licensePlate = ''34ABC'', vclass = Truck, entryTime = 1000 \<rparr>)
     \<le> sint (8200 :: time_t)
   \<and> calculateFee \<lparr> licensePlate = ''34ABC'', vclass = Truck, entryTime = 1000 \<rparr> 8200 = 100"
  using C1_fee_formula [of "\<lparr> licensePlate = ''34ABC'', vclass = Truck, entryTime = 1000 \<rparr>" 8200]
  by simp

text \<open>
  Claim C8. For every class and all durations \<open>d2 \<ge> d1 \<ge> 0\<close> (in seconds, the
  distance from the entry instant to the current time) the fee for \<open>d2\<close> is at least the
  fee for \<open>d1\<close>, and the fee is the hourly rate exactly when the duration is at most one
  hour (3600 seconds).
\<close>

theorem C8_fee_monotone:
  assumes "vclass v1 = vclass v2"
    and "0 \<le> sint now - sint (entryTime v1)"
    and "sint now - sint (entryTime v1) \<le> sint now - sint (entryTime v2)"
  shows "calculateFee v1 now \<le> calculateFee v2 now
         \<and> (calculateFee v1 now = rate (vclass v1)
              \<longleftrightarrow> sint now - sint (entryTime v1) \<le> 3600)
         \<and> (calculateFee v2 now = rate (vclass v2)
              \<longleftrightarrow> sint now - sint (entryTime v2) \<le> 3600)"
proof -
  have exact: "calculateFee v now = rate (vclass v) \<longleftrightarrow> sint now - sint (entryTime v) \<le> 3600"
    for v
  proof -
    have "rate (vclass v) * max 1 (hoursBetween (entryTime v) now) = rate (vclass v) * 1
            \<longleftrightarrow> max 1 (hoursBetween (entryTime v) now) = 1"
      using rate_pos [of "vclass v"] by (simp only: mult_cancel_left) simp
    also have "\<dots> \<longleftrightarrow> hoursBetween (entryTime v) now \<le> 1"
      by (simp add: max_def)
    also have "\<dots> \<longleftrightarrow> sint now - sint (entryTime v) \<le> 3600"
      unfolding hoursBetween_def by (rule hours_le_one_iff)
    finally show ?thesis
      by (simp add: calculateFee_spec_fee spec_fee_def)
  qed
  have "hoursBetween (entryTime v1) now \<le> hoursBetween (entryTime v2) now"
    unfolding hoursBetween_def using assms(3) by (rule hours_mono)
  then have "max 1 (hoursBetween (entryTime v1) now) \<le> max 1 (hoursBetween (entryTime v2) now)"
    by (simp add: max_def)
  then have "rate (vclass v2) * max 1 (hoursBetween (entryTime v1) now)
               \<le> rate (vclass v2) * max 1 (hoursBetween (entryTime v2) now)"
    by (rule mult_left_mono) (simp add: less_imp_le [OF rate_pos])
  then have "calculateFee v1 now \<le> calculateFee v2 now"
    by (simp add: calculateFee_spec_fee spec_fee_def assms(1))
  then show ?thesis using exact [of v1] exact [of v2] by simp
qed

theorem C8_fee_monotone_witness:
  "calculateFee \<lparr> licensePlate = ''A'', vclass = Car, entryTime = 9000 \<rparr> 10000
     \<le> calculateFee \<lparr> licensePlate = ''B'', vclass = Car, entryTime = 2800 \<rparr> 10000
   \<and> calculateFee \<lparr> licensePlate = ''A'', vclass = Car, entryTime = 9000 \<rparr> 10000 = 20
   \<and> calculateFee \<lparr> licensePlate = ''B'', vclass = Car, entryTime = 2800 \<rparr> 10000 \<noteq> 20"
  using C8_fee_monotone [of "\<lparr> licensePlate = ''A'', vclass = Car, entryTime = 9000 \<rparr>"
      "\<lparr> licensePlate = ''B'', vclass = Car, entryTime = 2800 \<rparr>" 10000]
  by simp

text \<open>
  Claim C10. For every class and every entry instant, also one later than the current
  time, the fee is at least one full hour at the class's rate, which is positive: an
  elapsed time below one hour, negative ones included, is charged as one hour.
\<close>

theorem C10_fee_at_least_one_hour:
  "rate (vclass v) \<le> calculateFee v now \<and> 0 < rate (vclass v)
   \<and> (difftime now (entryTime v) / 3600 < 1 \<longrightarrow> calculateFee v now = rate (vclass v))"
proof -
  have "difftime now (entryTime v) / 3600 < 1 \<longrightarrow> calculateFee v now = rate (vclass v)"
    by (cases "vclass v")
       (simp_all add: calculateFee_def Car_calculateFee_def Truck_calculateFee_def
          Motorbike_calculateFee_def Let_def)
  moreover have "rate (vclass v) \<le> calculateFee v now"
    by (simp only: calculateFee_spec_fee spec_fee_ge_rate)
  ultimately show ?thesis by (simp add: rate_pos)
qed

theorem C10_fee_at_least_one_hour_witness:
  "difftime 1000 (entryTime \<lparr> licensePlate = ''06XY'', vclass = Motorbike, entryTime = 5000 \<rparr>) / 3600 < 1
   \<and> calculateFee \<lparr> licensePlate = ''06XY'', vclass = Motorbike, entryTime = 5000 \<rparr> 1000 = 10"
  using C10_fee_at_least_one_hour
    [of "\<lparr> licensePlate = ''06XY'', vclass = Motorbike, entryTime = 5000 \<rparr>" 1000]
  by (simp add: difftime_def)

section \<open>Properties of the registry\<close>

lemma unpark_loop_absent:
  "list_all (\<lambda>u. licensePlate u \<noteq> plate) xs
   \<Longrightarrow> unpark_loop plate now before xs revenue = (before @ xs, revenue, [], False)"
  by (induction xs arbitrary: before) simp_all

lemma unpark_loop_first:
  "list_all (\<lambda>u. licensePlate u \<noteq> plate) pre \<Longrightarrow> licensePlate v = plate
   \<Longrightarrow> unpark_loop plate now before (pre @ v # post) revenue
       = (before @ pre @ post, revenue + calculateFee v now,
          [Receipt plate (getType v) (calculateFee v now)], True)"
  by (induction pre arbitrary: before) (simp_all add: Let_def)

lemma parkVehicle_bound:
  "length (parkedVehicles lot) \<le> capacity
   \<Longrightarrow> length (parkedVehicles (fst (parkVehicle v lot))) \<le> capacity"
  by (simp add: parkVehicle_def)

lemma unparkVehicle_length:
  "length (parkedVehicles (fst (unparkVehicle plate now lot))) \<le> length (parkedVehicles lot)"
proof (cases "\<exists>u \<in> set (parkedVehicles lot). licensePlate u = plate")
  case True
  from split_list_first_prop [OF True]
  obtain before v rest where eq: "parkedVehicles lot = before @ v # rest"
    and v: "licensePlate v = plate"
    and first: "\<forall>u \<in> set before. licensePlate u \<noteq> plate"
    by blast
  from first have "list_all (\<lambda>u. licensePlate u \<noteq> plate) before"
    by (simp add: list_all_iff)
  then show ?thesis
    using v by (simp add: unparkVehicle_def eq unpark_loop_first)
next
  case False
  then have "list_all (\<lambda>u. licensePlate u \<noteq> plate) (parkedVehicles lot)"
    by (simp add: list_all_iff)
  then show ?thesis
    by (simp add: unparkVehicle_def unpark_loop_absent)
qed

text \<open>
  Claim C2. The capacity is 7. Admitting a vehicle when the occupancy equals the capacity
  rejects it: the registry is returned unchanged (the vehicle is not stored, the sequence
  and the occupancy stay as they were) and the caller gets the "lot is full" message.
  Admitting below the capacity appends the vehicle at the end of the sequence. The
  registry changes only when the vehicle was admitted.
\<close>

theorem C2_parkVehicle_capacity:
  "capacity = 7
   \<and> (length (parkedVehicles lot) = capacity
        \<longrightarrow> parkVehicle v lot = (lot, [LotFull (licensePlate v)]))
   \<and> (length (parkedVehicles lot) < capacity
        \<longrightarrow> parkVehicle v lot
              = (lot\<lparr>parkedVehicles := parkedVehicles lot @ [v]\<rparr>,
                 [ParkedOk (getType v) (licensePlate v)]))
   \<and> (fst (parkVehicle v lot) \<noteq> lot \<longrightarrow> length (parkedVehicles lot) < capacity)"
  by (simp add: parkVehicle_def capacity_def)

theorem C2_parkVehicle_capacity_witness:
  "length (parkedVehicles
      \<lparr>parkedVehicles = map (\<lambda>p. \<lparr>licensePlate = p, vclass = Car, entryTime = 100\<rparr>)
         [''P1'', ''P2'', ''P3'', ''P4'', ''P5'', ''P6'', ''P7''], totalRevenue = 0\<rparr>) = capacity
   \<and> parkVehicle \<lparr>licensePlate = ''P8'', vclass = Car, entryTime = 200\<rparr>
        \<lparr>parkedVehicles = map (\<lambda>p. \<lparr>licensePlate = p, vclass = Car, entryTime = 100\<rparr>)
           [''P1'', ''P2'', ''P3'', ''P4'', ''P5'', ''P6'', ''P7''], totalRevenue = 0\<rparr>
      = (\<lparr>parkedVehicles = map (\<lambda>p. \<lparr>licensePlate = p, vclass = Car, entryTime = 100\<rparr>)
           [''P1'', ''P2'', ''P3'', ''P4'', ''P5'', ''P6'', ''P7''], totalRevenue = 0\<rparr>,
         [LotFull ''P8''])
   \<and> length (parkedVehicles \<lparr>parkedVehicles = [], totalRevenue = 0\<rparr>) < capacity
   \<and> parkVehicle \<lparr>licensePlate = ''P8'', vclass = Car, entryTime = 200\<rparr>
        \<lparr>parkedVehicles = [], totalRevenue = 0\<rparr>
      = (\<lparr>parkedVehicles = [\<lparr>licensePlate = ''P8'', vclass = Car, entryTime = 200\<rparr>],
          totalRevenue = 0\<rparr>, [ParkedOk ''Car'' ''P8''])"
  using C2_parkVehicle_capacity
    [of "\<lparr>parkedVehicles = map (\<lambda>p. \<lparr>licensePlate = p, vclass = Car, entryTime = 100\<rparr>)
           [''P1'', ''P2'', ''P3'', ''P4'', ''P5'', ''P6'', ''P7''], totalRevenue = 0\<rparr>"
        "\<lparr>licensePlate = ''P8'', vclass = Car, entryTime = 200\<rparr>"]
    C2_parkVehicle_capacity
    [of "\<lparr>parkedVehicles = [], totalRevenue = 0\<rparr>"
        "\<lparr>licensePlate = ''P8'', vclass = Car, entryTime = 200\<rparr>"]
  by (simp add: getType_def)

text \<open>
  Claim C4. When at least one parked vehicle has the given plate, \<open>unparkVehicle\<close>
  removes exactly one entry, the earliest-admitted vehicle with that plate (no vehicle
  before it in the sequence has the plate), keeps all other vehicles in their order, and
  adds to the revenue exactly that vehicle's fee at the current time; the receipt shows
  the plate, the type and that fee.
\<close>

theorem C4_unparkVehicle_present:
  assumes "\<exists>u \<in> set (parkedVehicles lot). licensePlate u = plate"
  shows "\<exists>before v rest.
           parkedVehicles lot = before @ v # rest
         \<and> (\<forall>u \<in> set before. licensePlate u \<noteq> plate)
         \<and> licensePlate v = plate
         \<and> unparkVehicle plate now lot
             = (lot\<lparr>parkedVehicles := before @ rest,
                    totalRevenue := totalRevenue lot + calculateFee v now\<rparr>,
                [Receipt plate (getType v) (calculateFee v now)])"
proof -
  from split_list_first_prop [OF assms]
  obtain before v rest where eq: "parkedVehicles lot = before @ v # rest"
    and v: "licensePlate v = plate"
    and first: "\<forall>u \<in> set before. licensePlate u \<noteq> plate"
    by blast
  from first have "list_all (\<lambda>u. licensePlate u \<noteq> plate) before"
    by (simp add: list_all_iff)
  then have "unpark_loop plate now [] (before @ v # rest) (totalRevenue lot)
               = (before @ rest, totalRevenue lot + calculateFee v now,
                  [Receipt plate (getType v) (calculateFee v now)], True)"
    using v by (simp add: unpark_loop_first)
  then have "unparkVehicle plate now lot
               = (lot\<lparr>parkedVehicles := before @ rest,
                      totalRevenue := totalRevenue lot + calculateFee v now\<rparr>,
                  [Receipt plate (getType v) (calculateFee v now)])"
    by (simp add: unparkVehicle_def eq)
  with eq v first show ?thesis by blast
qed

theorem C4_unparkVehicle_present_witness:
  "(\<exists>u \<in> set (parkedVehicles
        \<lparr>parkedVehicles = [\<lparr>licensePlate = ''X'', vclass = Car, entryTime = 1000\<rparr>,
                           \<lparr>licensePlate = ''Y'', vclass = Truck, entryTime = 2000\<rparr>,
                           \<lparr>licensePlate = ''Y'', vclass = Motorbike, entryTime = 3000\<rparr>],
         totalRevenue = 5\<rparr>). licensePlate u = ''Y'')
   \<and> unparkVehicle ''Y'' 9200
        \<lparr>parkedVehicles = [\<lparr>licensePlate = ''X'', vclass = Car, entryTime = 1000\<rparr>,
                           \<lparr>licensePlate = ''Y'', vclass = Truck, entryTime = 2000\<rparr>,
                           \<lparr>licensePlate = ''Y'', vclass = Motorbike, entryTime = 3000\<rparr>],
         totalRevenue = 5\<rparr>
      = (\<lparr>parkedVehicles = [\<lparr>licensePlate = ''X'', vclass = Car, entryTime = 1000\<rparr>,
                            \<lparr>licensePlate = ''Y'', vclass = Motorbike, entryTime = 3000\<rparr>],
          totalRevenue = 105\<rparr>,
         [Receipt ''Y'' ''Truck'' 100])"
  using C4_unparkVehicle_present
    [of "\<lparr>parkedVehicles = [\<lparr>licensePlate = ''X'', vclass = Car, entryTime = 1000\<rparr>,
                             \<lparr>licensePlate = ''Y'', vclass = Truck, entryTime = 2000\<rparr>,
                             \<lparr>licensePlate = ''Y'', vclass = Motorbike, entryTime = 3000\<rparr>],
           totalRevenue = 5\<rparr>" "''Y''" 9200]
  by (auto simp: Cons_eq_append_conv getType_def calculateFee_def Truck_calculateFee_def
        difftime_def)

text \<open>
  Claim C5. When no parked vehicle has the given plate, \<open>unparkVehicle\<close> reports that
  the vehicle with that plate was not found and changes nothing: the sequence, the
  occupancy and the revenue are as before.
\<close>

theorem C5_unparkVehicle_absent:
  assumes "\<forall>u \<in> set (parkedVehicles lot). licensePlate u \<noteq> plate"
  shows "unparkVehicle plate now lot = (lot, [NotFound plate])"
proof -
  from assms have "list_all (\<lambda>u. licensePlate u \<noteq> plate) (parkedVehicles lot)"
    by (simp add: list_all_iff)
  then have "unpark_loop plate now [] (parkedVehicles lot) (totalRevenue lot)
               = (parkedVehicles lot, totalRevenue lot, [], False)"
    by (simp add: unpark_loop_absent)
  then show ?thesis
    by (simp add: unparkVehicle_def)
qed

theorem C5_unparkVehicle_absent_witness:
  "unparkVehicle ''XYZ'' 500 \<lparr>parkedVehicles = [], totalRevenue = 0\<rparr>
      = (\<lparr>parkedVehicles = [], totalRevenue = 0\<rparr>, [NotFound ''XYZ''])
   \<and> unparkVehicle ''XYZ'' 500
        \<lparr>parkedVehicles = [\<lparr>licensePlate = ''X'', vclass = Car, entryTime = 1000\<rparr>],
         totalRevenue = 40\<rparr>
      = (\<lparr>parkedVehicles = [\<lparr>licensePlate = ''X'', vclass = Car, entryTime = 1000\<rparr>],
          totalRevenue = 40\<rparr>, [NotFound ''XYZ''])"
  using C5_unparkVehicle_absent [of "\<lparr>parkedVehicles = [], totalRevenue = 0\<rparr>" "''XYZ''" 500]
    C5_unparkVehicle_absent
      [of "\<lparr>parkedVehicles = [\<lparr>licensePlate = ''X'', vclass = Car, entryTime = 1000\<rparr>],
            totalRevenue = 40\<rparr>" "''XYZ''" 500]
  by simp

section \<open>Properties of the persistence\<close>

lemma small_digit_cases:
  "0 \<le> d \<Longrightarrow> d < 10 \<Longrightarrow> d \<in> {0, 1, 2, 3, 4, 5, 6, 7, 8, 9 :: int}"
  by simp arith

lemma digit_char_table:
  "map digit_char [0, 1, 2, 3, 4, 5, 6, 7, 8, 9] = ''0123456789''"
  by code_simp

lemma digit_value_table:
  "map digit_value ''0123456789'' = [0, 1, 2, 3, 4, 5, 6, 7, 8, 9]"
  by code_simp

lemma isdigit_digit_char: "0 \<le> d \<Longrightarrow> d < 10 \<Longrightarrow> isdigit (digit_char d)"
  using digit_char_table by (drule_tac small_digit_cases) (auto simp: isdigit_def)

lemma digit_value_digit_char: "0 \<le> d \<Longrightarrow> d < 10 \<Longrightarrow> digit_value (digit_char d) = d"
  using digit_char_table digit_value_table by (drule_tac small_digit_cases) auto

lemma show_digits_isdigit: "0 \<le> n \<Longrightarrow> c \<in> set (show_digits n) \<Longrightarrow> isdigit c"
proof (induction n arbitrary: c rule: show_digits.induct)
  case (1 n)
  show ?case
  proof (cases "n < 10")
    case True
    with "1.prems" show ?thesis
      by (simp add: show_digits.simps [of n] isdigit_digit_char)
  next
    case False
    with "1.prems" have "c \<in> set (show_digits (n div 10)) \<or> c = digit_char (n mod 10)"
      by (auto simp: show_digits.simps [of n])
    then show ?thesis
    proof
      assume "c \<in> set (show_digits (n div 10))"
      with False "1.prems" "1.IH" show ?thesis by simp
    next
      assume "c = digit_char (n mod 10)"
      then show ?thesis by (simp add: isdigit_digit_char)
    qed
  qed
qed

lemma show_digits_nonempty: "show_digits n \<noteq> []"
  by (simp add: show_digits.simps [of n])

lemma digits_value_show_digits: "0 \<le> n \<Longrightarrow> foldl (\<lambda>a c. 10 * a + digit_value c) 0 (show_digits n) = n"
proof (induction n rule: show_digits.induct)
  case (1 n)
  show ?case
  proof (cases "n < 10")
    case True
    with "1.prems" show ?thesis
      by (simp add: show_digits.simps [of n] digit_value_digit_char)
  next
    case False
    with "1.prems" "1.IH" have "foldl (\<lambda>a c. 10 * a + digit_value c) 0 (show_digits (n div 10)) = n div 10"
      by simp
    with False show ?thesis
      by (simp add: show_digits.simps [of n] digit_value_digit_char)
  qed
qed


lemma isdigit_not_isspace: "isdigit c \<Longrightarrow> \<not> isspace c"
  by (auto simp: isdigit_def isspace_def)

lemma isdigit_not_sign: "isdigit c \<Longrightarrow> c \<noteq> CHR ''-'' \<and> c \<noteq> CHR ''+''"
  by (auto simp: isdigit_def)

lemma show_digits_Cons: "0 \<le> n \<Longrightarrow> \<exists>d ds. show_digits n = d # ds \<and> isdigit d"
proof -
  assume n: "0 \<le> n"
  obtain d ds where eq: "show_digits n = d # ds"
    using show_digits_nonempty [of n] by (cases "show_digits n") auto
  then have "d \<in> set (show_digits n)" by simp
  with n have "isdigit d" by (rule show_digits_isdigit)
  with eq show ?thesis by blast
qed

lemma takeWhile_show_digits:
  "0 \<le> n \<Longrightarrow> \<not> isdigit c \<Longrightarrow> takeWhile isdigit (show_digits n @ c # r) = show_digits n"
  by (simp add: takeWhile_append2 show_digits_isdigit)

lemma dropWhile_show_digits:
  "0 \<le> n \<Longrightarrow> \<not> isdigit c \<Longrightarrow> dropWhile isdigit (show_digits n @ c # r) = c # r"
  by (simp add: dropWhile_append2 show_digits_isdigit)

lemma sint_time_t_range:
  "- 9223372036854775808 \<le> sint (t :: time_t)" "sint (t :: time_t) \<le> 9223372036854775807"
  using sint_ge [of t] sint_lt [of t] by simp_all

lemma read_time_t_digits:
  assumes n: "0 \<le> n" and c: "\<not> isdigit c"
  shows "read_time_t (show_digits n @ c # r) =
           (if 9223372036854775807 < n then None else Some (word_of_int n, c # r))"
proof -
  obtain d ds where eq: "show_digits n = d # ds" and d: "isdigit d"
    using show_digits_Cons [OF n] by blast
  have sp: "dropWhile isspace (show_digits n @ c # r) = show_digits n @ c # r"
    using d by (simp add: eq isdigit_not_isspace)
  have sg: "read_sign (show_digits n @ c # r) = (False, show_digits n @ c # r)"
    using isdigit_not_sign [OF d] by (simp add: eq read_sign_def)
  show ?thesis
    unfolding read_time_t_def sp sg
    by (simp add: Let_def takeWhile_show_digits [OF n c] dropWhile_show_digits [OF n c]
          digits_value_show_digits [OF n] show_digits_nonempty)
qed

lemma read_time_t_minus_digits:
  assumes n: "0 \<le> n" and c: "\<not> isdigit c"
  shows "read_time_t (CHR ''-'' # show_digits n @ c # r) =
           (if 9223372036854775808 < n then None else Some (word_of_int (- n), c # r))"
proof -
  have sp: "dropWhile isspace (CHR ''-'' # show_digits n @ c # r) = CHR ''-'' # show_digits n @ c # r"
    by (simp add: isspace_def)
  have sg: "read_sign (CHR ''-'' # show_digits n @ c # r) = (True, show_digits n @ c # r)"
    by (simp add: read_sign_def)
  show ?thesis
    unfolding read_time_t_def sp sg
    by (simp add: Let_def takeWhile_show_digits [OF n c] dropWhile_show_digits [OF n c]
          digits_value_show_digits [OF n] show_digits_nonempty)
qed

lemma read_time_t_show_time_t:
  assumes c: "\<not> isdigit c"
  shows "read_time_t (show_time_t t @ c # r) = Some (t, c # r)"
proof (cases "sint t < 0")
  case True
  then have "0 \<le> - sint t" by simp
  from read_time_t_minus_digits [OF this c, of r] True sint_time_t_range(1) [of t]
  show ?thesis by (simp add: show_time_t_def)
next
  case False
  then have "0 \<le> sint t" by simp
  from read_time_t_digits [OF this c, of r] False sint_time_t_range(2) [of t]
  show ?thesis by (simp add: show_time_t_def)
qed

lemma read_time_t_skip: "isspace c \<Longrightarrow> read_time_t (c # s) = read_time_t s"
  by (simp add: read_time_t_def)

lemma read_word_skip: "isspace c \<Longrightarrow> read_word (c # s) = read_word s"
  by (simp add: read_word_def)

lemma read_word_token:
  assumes w: "is_token w" and c: "isspace c"
  shows "read_word (w @ c # r) = Some (w, c # r)"
proof -
  from w obtain a w' where eq: "w = a # w'" and a: "\<not> isspace a"
    by (cases w) (auto simp: is_token_def)
  from w have all: "\<And>x. x \<in> set w \<Longrightarrow> \<not> isspace x"
    by (simp add: is_token_def list_all_iff)
  have sp: "dropWhile isspace (w @ c # r) = w @ c # r"
    using a by (simp add: eq)
  have tk: "takeWhile (\<lambda>c. \<not> isspace c) (w @ c # r) = w"
    using all c by (simp add: takeWhile_append2)
  have dr: "dropWhile (\<lambda>c. \<not> isspace c) (w @ c # r) = c # r"
    using all c by (simp add: dropWhile_append2)
  show ?thesis
    unfolding read_word_def sp Let_def tk dr by (simp add: eq)
qed

lemma is_token_type_name: "is_token (type_name k)"
  by (cases k) (simp_all add: is_token_def isspace_def)

lemma isspace_blank: "isspace CHR '' ''" and isspace_newline: "isspace (CHR 0x0A)"
  by (simp_all add: isspace_def)

lemma not_isdigit_newline: "\<not> isdigit (CHR 0x0A)"
  by (simp add: isdigit_def)

lemma read_record_field_line:
  assumes ty: "is_token ty" and plate: "is_token plate"
  shows "read_record (field_line ty plate t @ r) = Some ((ty, plate, t), CHR 0x0A # r)"
proof -
  let ?n = "show_time_t t @ CHR 0x0A # r"
  let ?p = "plate @ CHR '' '' # ?n"
  have line: "field_line ty plate t @ r = ty @ CHR '' '' # ?p"
    by (simp add: field_line_def)
  have 1: "read_word (ty @ CHR '' '' # ?p) = Some (ty, CHR '' '' # ?p)"
    by (rule read_word_token [OF ty isspace_blank])
  have 2: "read_word (CHR '' '' # ?p) = Some (plate, CHR '' '' # ?n)"
    by (simp only: read_word_skip [OF isspace_blank] read_word_token [OF plate isspace_blank])
  have 3: "read_time_t (CHR '' '' # ?n) = Some (t, CHR 0x0A # r)"
    by (simp only: read_time_t_skip [OF isspace_blank]
          read_time_t_show_time_t [OF not_isdigit_newline])
  show ?thesis
    by (simp only: line read_record_def 1 2 3 option.case prod.case)
qed

lemma record_line_field_line:
  "record_line v = field_line (type_name (vclass v)) (licensePlate v) (entryTime v)"
  by (simp add: record_line_def field_line_def getType_def)

lemma read_record_record_line:
  assumes "is_token (licensePlate v)"
  shows "read_record (record_line v @ r)
           = Some ((type_name (vclass v), licensePlate v, entryTime v), CHR 0x0A # r)"
  unfolding record_line_field_line
  by (rule read_record_field_line [OF is_token_type_name assms])

lemma read_record_skip: "isspace c \<Longrightarrow> read_record (c # s) = read_record s"
  by (simp add: read_record_def read_word_skip)

lemma load_loop_skip: "isspace c \<Longrightarrow> load_loop now (c # s) vs = load_loop now s vs"
  by (simp add: load_loop.simps [of now "c # s"] load_loop.simps [of now s] read_record_skip)

lemma load_loop_Nil: "load_loop now [] vs = vs"
  by (simp add: load_loop.simps [of now "[]"] read_record_def read_word_def)

lemma load_loop_record_line:
  assumes "is_token (licensePlate v)"
  shows "load_loop now (record_line v @ r) vs = load_loop now r (vs @ [loaded_vehicle now v])"
proof -
  have "load_loop now (record_line v @ r) vs
          = load_loop now (CHR 0x0A # r) (vs @ [loaded_vehicle now v])"
    by (cases "vclass v")
       (simp_all add: load_loop.simps [of now "record_line v @ r"]
          read_record_record_line [OF assms] loaded_vehicle_def)
  then show ?thesis
    by (simp only: load_loop_skip [OF isspace_newline])
qed

lemma write_records_concat: "write_records out vs = out @ concat (map record_line vs)"
  by (induction vs arbitrary: out) simp_all

lemma load_loop_records:
  "list_all (\<lambda>v. is_token (licensePlate v)) ws
   \<Longrightarrow> load_loop now (concat (map record_line ws) @ r) vs = load_loop now r (vs @ map (loaded_vehicle now) ws)"
proof (induction ws arbitrary: vs)
  case Nil
  show ?case by simp
next
  case (Cons w ws)
  then have w: "is_token (licensePlate w)" and ws: "list_all (\<lambda>v. is_token (licensePlate v)) ws"
    by simp_all
  have "load_loop now (concat (map record_line (w # ws)) @ r) vs
          = load_loop now (record_line w @ (concat (map record_line ws) @ r)) vs"
    by simp
  also have "\<dots> = load_loop now (concat (map record_line ws) @ r) (vs @ [loaded_vehicle now w])"
    by (rule load_loop_record_line [OF w])
  also have "\<dots> = load_loop now r ((vs @ [loaded_vehicle now w]) @ map (loaded_vehicle now) ws)"
    by (rule Cons.IH [OF ws])
  finally show ?case by simp
qed

lemma loaded_vehicle_id: "entryTime v \<noteq> 0 \<Longrightarrow> loaded_vehicle now v = v"
  by (simp add: loaded_vehicle_def Vehicle_def)





lemma load_saved:
  assumes "list_all (\<lambda>v. is_token (licensePlate v)) vs"
  shows "load_loop now (write_records [] vs) [] = map (loaded_vehicle now) vs"
  using load_loop_records [OF assms, of now "[]" "[]"]
  by (simp add: write_records_concat load_loop_Nil)

lemma map_loaded_vehicle_id:
  "list_all (\<lambda>v. entryTime v \<noteq> 0) vs \<Longrightarrow> map (loaded_vehicle now) vs = vs"
  by (induction vs) (simp_all add: loaded_vehicle_id)

lemma ParkingLot_init_Some:
  "ParkingLot_init (Some text) now
     = (\<lparr>parkedVehicles = load_loop now text [], totalRevenue = 0\<rparr>, [Loaded])"
  by (simp add: ParkingLot_init_def loadData_def)

lemma saveData_opened:
  "saveData True store lot = (Some (write_records [] (parkedVehicles lot)), [Saved])"
  by (simp add: saveData_def)

text \<open>
  Claim C6 (as amended). For every parked set whose plates are non-empty whitespace-free
  tokens and whose entry instants are not 0, saving the set and then constructing a
  registry from the resulting file reproduces exactly the same sequence of (class, plate,
  entry instant) records, in the same order. An entry instant of 0 is excluded: the
  constructor of \<open>Vehicle\<close> takes 0 as "no time given" and puts the clock reading in
  its place.
\<close>

theorem C6_save_load_roundtrip:
  assumes "list_all (\<lambda>v. is_token (licensePlate v) \<and> entryTime v \<noteq> 0) (parkedVehicles lot)"
  shows "parkedVehicles (fst (ParkingLot_init (fst (saveData True store lot)) now))
           = parkedVehicles lot"
proof -
  from assms have tok: "list_all (\<lambda>v. is_token (licensePlate v)) (parkedVehicles lot)"
    and nz: "list_all (\<lambda>v. entryTime v \<noteq> 0) (parkedVehicles lot)"
    by (simp_all add: list_all_iff)
  have "parkedVehicles (fst (ParkingLot_init (fst (saveData True store lot)) now))
          = load_loop now (write_records [] (parkedVehicles lot)) []"
    by (simp add: saveData_opened ParkingLot_init_Some)
  also have "\<dots> = map (loaded_vehicle now) (parkedVehicles lot)"
    by (rule load_saved [OF tok])
  also have "\<dots> = parkedVehicles lot"
    by (rule map_loaded_vehicle_id [OF nz])
  finally show ?thesis .
qed

theorem C6_save_load_roundtrip_witness:
  "list_all (\<lambda>v. is_token (licensePlate v) \<and> entryTime v \<noteq> 0)
     (parkedVehicles
        \<lparr>parkedVehicles = [\<lparr>licensePlate = ''34ABC'', vclass = Car, entryTime = 1766000000\<rparr>,
                           \<lparr>licensePlate = ''06XY'', vclass = Truck, entryTime = - 5\<rparr>],
         totalRevenue = 3\<rparr>)
   \<and> parkedVehicles (fst (ParkingLot_init (fst (saveData True None
        \<lparr>parkedVehicles = [\<lparr>licensePlate = ''34ABC'', vclass = Car, entryTime = 1766000000\<rparr>,
                           \<lparr>licensePlate = ''06XY'', vclass = Truck, entryTime = - 5\<rparr>],
         totalRevenue = 3\<rparr>)) 1766000900))
      = [\<lparr>licensePlate = ''34ABC'', vclass = Car, entryTime = 1766000000\<rparr>,
         \<lparr>licensePlate = ''06XY'', vclass = Truck, entryTime = - 5\<rparr>]"
  using C6_save_load_roundtrip
    [of "\<lparr>parkedVehicles = [\<lparr>licensePlate = ''34ABC'', vclass = Car, entryTime = 1766000000\<rparr>,
                             \<lparr>licensePlate = ''06XY'', vclass = Truck, entryTime = - 5\<rparr>],
           totalRevenue = 3\<rparr>" None 1766000900]
  by (simp add: is_token_def isspace_def)

text \<open>
  The claim as stated, for every parked set with token plates, fails for an entry instant
  of 0: the vehicle saved as \<open>Car A 0\<close> comes back with the time of loading, 100.
\<close>

theorem C6_roundtrip_counterexample:
  "list_all (\<lambda>v. is_token (licensePlate v))
     (parkedVehicles
        \<lparr>parkedVehicles = [\<lparr>licensePlate = ''A'', vclass = Car, entryTime = 0\<rparr>],
         totalRevenue = 0\<rparr>)
   \<and> parkedVehicles (fst (ParkingLot_init (fst (saveData True None
        \<lparr>parkedVehicles = [\<lparr>licensePlate = ''A'', vclass = Car, entryTime = 0\<rparr>],
         totalRevenue = 0\<rparr>)) 100))
      = [\<lparr>licensePlate = ''A'', vclass = Car, entryTime = 100\<rparr>]
   \<and> parkedVehicles (fst (ParkingLot_init (fst (saveData True None
        \<lparr>parkedVehicles = [\<lparr>licensePlate = ''A'', vclass = Car, entryTime = 0\<rparr>],
         totalRevenue = 0\<rparr>)) 100))
      \<noteq> parkedVehicles
          \<lparr>parkedVehicles = [\<lparr>licensePlate = ''A'', vclass = Car, entryTime = 0\<rparr>],
           totalRevenue = 0\<rparr>"
  by code_simp




text \<open>
  Claim C9. Revenue is not persisted: a registry constructed from any file, or from no
  file, starts with revenue 0; what \<open>saveData\<close> leaves in the file does not depend on
  the revenue and is exactly one line per parked vehicle (type, plate, entry instant);
  and a registry constructed from the file just saved has the parked set back (for token
  plates and entry instants other than 0) with revenue 0.
\<close>

theorem C9_revenue_not_persisted:
  "totalRevenue (fst (ParkingLot_init store now)) = 0
   \<and> fst (saveData can_open store (lot\<lparr>totalRevenue := r\<rparr>)) = fst (saveData can_open store lot)
   \<and> fst (saveData True store lot) = Some (concat (map record_line (parkedVehicles lot)))
   \<and> (list_all (\<lambda>v. is_token (licensePlate v) \<and> entryTime v \<noteq> 0) (parkedVehicles lot)
        \<longrightarrow> fst (ParkingLot_init (fst (saveData True store lot)) now)
              = \<lparr>parkedVehicles = parkedVehicles lot, totalRevenue = 0\<rparr>)"
proof -
  have 1: "totalRevenue (fst (ParkingLot_init store now)) = 0"
    by (cases store) (simp_all add: ParkingLot_init_def loadData_def)
  have 2: "fst (saveData can_open store (lot\<lparr>totalRevenue := r\<rparr>)) = fst (saveData can_open store lot)"
    by (simp add: saveData_def)
  have 3: "fst (saveData True store lot) = Some (concat (map record_line (parkedVehicles lot)))"
    by (simp add: saveData_opened write_records_concat)
  have 4: "fst (ParkingLot_init (fst (saveData True store lot)) now)
             = \<lparr>parkedVehicles = parkedVehicles lot, totalRevenue = 0\<rparr>"
    if a: "list_all (\<lambda>v. is_token (licensePlate v) \<and> entryTime v \<noteq> 0) (parkedVehicles lot)"
  proof -
    from a have tok: "list_all (\<lambda>v. is_token (licensePlate v)) (parkedVehicles lot)"
      and nz: "list_all (\<lambda>v. entryTime v \<noteq> 0) (parkedVehicles lot)"
      by (simp_all add: list_all_iff)
    show ?thesis
      by (simp add: saveData_opened ParkingLot_init_Some load_saved [OF tok]
            map_loaded_vehicle_id [OF nz])
  qed
  from 1 2 3 4 show ?thesis by blast
qed

theorem C9_revenue_not_persisted_witness:
  "list_all (\<lambda>v. is_token (licensePlate v) \<and> entryTime v \<noteq> 0)
     (parkedVehicles
        \<lparr>parkedVehicles = [\<lparr>licensePlate = ''34ABC'', vclass = Car, entryTime = 1766000000\<rparr>],
         totalRevenue = 120\<rparr>)
   \<and> fst (ParkingLot_init (fst (saveData True None
        \<lparr>parkedVehicles = [\<lparr>licensePlate = ''34ABC'', vclass = Car, entryTime = 1766000000\<rparr>],
         totalRevenue = 120\<rparr>)) 1766000900)
      = \<lparr>parkedVehicles = [\<lparr>licensePlate = ''34ABC'', vclass = Car, entryTime = 1766000000\<rparr>],
         totalRevenue = 0\<rparr>"
  using C9_revenue_not_persisted
    [where store = None and now = 1766000900 and can_open = True and r = 0
       and lot = "\<lparr>parkedVehicles = [\<lparr>licensePlate = ''34ABC'', vclass = Car, entryTime = 1766000000\<rparr>],
                  totalRevenue = 120\<rparr>",
     THEN conjunct2, THEN conjunct2, THEN conjunct2]
  by (simp add: is_token_def isspace_def)

text \<open>
  Claim C3. The bound of 7 on the parked sequence is kept by \<open>parkVehicle\<close>, which
  checks it, but not by \<open>loadData\<close>, which appends every record of the file without a
  check: a registry constructed from a file of eight well-formed lines holds eight
  vehicles.
\<close>

theorem C3_load_exceeds_capacity:
  "length (parkedVehicles (fst (ParkingLot_init
      (Some ''Car P1 100\<newline>Car P2 100\<newline>Car P3 100\<newline>Car P4 100\<newline>Car P5 100\<newline>Car P6 100\<newline>Car P7 100\<newline>Car P8 100\<newline>'')
      200))) = 8
   \<and> capacity = 7"
  by code_simp

end
